theory Spec2Isabelle
  imports Main
begin

section \<open>Go values\<close>

text \<open>
  Go strings and byte slices are sequences of bytes: \<open>string\<close>. The conversions
  \<open>[]byte(s)\<close> and \<open>string(b)\<close> keep the bytes. A byte slice that may be \<open>nil\<close>
  (the result of \<open>GetState\<close>, of a map lookup \<open>tMap[k]\<close>) is a \<open>string option\<close>, with
  \<open>None\<close> for \<open>nil\<close>. A Go \<open>error\<close> is identified with the message \<open>err.Error()\<close>,
  which is what the verbs \<open>%s\<close> and \<open>%+v\<close> print for it.
\<close>

type_synonym error = string

datatype panic = IndexOutOfRange

datatype failure = Failed error | Panicked panic

text \<open>\<open>string(value)\<close> of a byte slice: the empty string for \<open>nil\<close>.\<close>

definition string_of :: "string option \<Rightarrow> string" where
  "string_of value = (case value of None \<Rightarrow> [] | Some b \<Rightarrow> b)"

subsection \<open>\<open>strings.Split\<close> with a one-byte separator\<close>

text \<open>\<open>strings.IndexByte\<close>: the position of the first occurrence, \<open>None\<close> for \<open>-1\<close>.\<close>

fun IndexByte :: "string \<Rightarrow> char \<Rightarrow> nat option" where
  "IndexByte [] c = None"
| "IndexByte (x # xs) c =
     (if x = c then Some 0 else map_option Suc (IndexByte xs c))"

lemma IndexByte_less: "IndexByte s c = Some m \<Longrightarrow> m < length s"
  by (induction s arbitrary: m) (auto split: if_splits)

text \<open>
  The loop of \<open>strings.Split(s, sep)\<close> for a separator of one byte: while the
  separator occurs at \<open>m\<close>, emit \<open>s[:m]\<close> and go on with \<open>s[m+1:]\<close>; the rest of the
  string is the last element.
\<close>

function Split :: "string \<Rightarrow> char \<Rightarrow> string list" where
  "Split s sep =
     (case IndexByte s sep of
        None \<Rightarrow> [s]
      | Some m \<Rightarrow> take m s # Split (drop (m + 1) s) sep)"
  by pat_completeness auto
termination
  by (relation "measure (\<lambda>(s, sep). length s)") (auto dest: IndexByte_less)

declare Split.simps [simp del]

text \<open>\<open>result[0]\<close>: indexing an empty slice panics.\<close>

definition index0 :: "'a list \<Rightarrow> panic + 'a" where
  "index0 xs = (case xs of [] \<Rightarrow> Inl IndexOutOfRange | x # _ \<Rightarrow> Inr x)"

section \<open>Collaborators\<close>

subsection \<open>The chaincode stub\<close>

text \<open>
  The calls the chaincode makes to its collaborators (the ledger and the cipher), in
  the order they are made.
\<close>

datatype call =
    GetStateCall string
  | PutStateCall string string
  | NewEntityCall "string option" "string option"
  | EncryptCall string
  | DecryptCall string

text \<open>
  The stub of one transaction: the function name and parameters of the proposal, the
  transient map (or the error of its retrieval), the ledger as a map from keys to
  values, the faults the ledger reports, and the trace of collaborator calls.
\<close>

record stub =
  fn :: string
  params :: "string list"
  transient :: "error + (string \<rightharpoonup> string)"
  ledger :: "string \<rightharpoonup> string"
  put_fault :: "string \<Rightarrow> string \<Rightarrow> error option"
  get_fault :: "string \<Rightarrow> error option"
  calls :: "call list"

definition GetFunctionAndParameters :: "stub \<Rightarrow> string \<times> string list" where
  "GetFunctionAndParameters stub = (fn stub, params stub)"

definition GetTransient :: "stub \<Rightarrow> error + (string \<rightharpoonup> string)" where
  "GetTransient stub = transient stub"

definition record_call :: "call \<Rightarrow> stub \<Rightarrow> stub" where
  "record_call c stub = stub\<lparr>calls := calls stub @ [c]\<rparr>"

text \<open>
  \<open>PutState(key, value)\<close> returns the ledger's fault, or binds the key to the value,
  replacing what was there. A failed put leaves the ledger as it was.
\<close>

definition PutState :: "stub \<Rightarrow> string \<Rightarrow> string \<Rightarrow> error option \<times> stub" where
  "PutState stub key value =
     (let stub1 = record_call (PutStateCall key value) stub in
      case put_fault stub key value of
        Some err \<Rightarrow> (Some err, stub1)
      | None \<Rightarrow> (None, stub1\<lparr>ledger := (ledger stub)(key \<mapsto> value)\<rparr>))"

text \<open>
  \<open>GetState(key)\<close> returns the pair \<open>(value, err)\<close>: \<open>(nil, err)\<close> on a fault, the
  stored bytes otherwise, \<open>nil\<close> for a key that holds nothing.
\<close>

definition GetState :: "stub \<Rightarrow> string \<Rightarrow> (string option \<times> error option) \<times> stub" where
  "GetState stub key =
     (let stub1 = record_call (GetStateCall key) stub in
      case get_fault stub key of
        Some err \<Rightarrow> ((None, Some err), stub1)
      | None \<Rightarrow> ((ledger stub key, None), stub1))"

subsection \<open>The cipher\<close>

text \<open>
  The cipher is a library outside this package; the chaincode sees it through
  \<open>NewAES256EncrypterEntity\<close>, which constructs an entity from an identifier, the
  crypto provider, a key and an IV, or reports why it cannot (a key that is not a valid
  AES-256 key, for instance). The entity follows the contract the spec gives for the
  cipher: \<open>Encrypt\<close> gives the ciphertext of a plaintext, \<open>Decrypt\<close> the plaintext of
  a ciphertext or a format fault. The provider is the function that constructs the
  entity.
\<close>

record entity =
  Encrypt :: "string \<Rightarrow> string"
  Decrypt :: "string \<Rightarrow> error + string"

type_synonym BCCSP = "string \<Rightarrow> string option \<Rightarrow> string option \<Rightarrow> error + entity"

definition NewAES256EncrypterEntity ::
  "string \<Rightarrow> BCCSP \<Rightarrow> string option \<Rightarrow> string option \<Rightarrow> error + entity" where
  "NewAES256EncrypterEntity ID b key IV = b ID key IV"

section \<open>The chaincode\<close>

definition DECKEY :: string where "DECKEY = ''DECKEY''"
definition ENCKEY :: string where "ENCKEY = ''ENCKEY''"
definition IV :: string where "IV = ''IV''"

record SimpleAsset =
  bccspInst :: BCCSP

datatype response = Success string | Error string

subsection \<open>Plaintext records\<close>

definition addRecord :: "stub \<Rightarrow> string list \<Rightarrow> (failure + string) \<times> stub" where
  "addRecord stub args =
     (if length args \<noteq> 4
      then (Inl (Failed ''Incorrect arguments. Expecting a key and a value''), stub)
      else
        let key = args ! 0 @ '':'' @ args ! 1;
            value = args ! 2 @ '':'' @ args ! 3;
            (err, stub1) = PutState stub key value
        in case err of
             Some e \<Rightarrow> (Inl (Failed (''Failed to set asset: '' @ args ! 0)), stub1)
           | None \<Rightarrow> (Inr value, stub1))"

definition getRecord :: "stub \<Rightarrow> string list \<Rightarrow> (failure + string) \<times> stub" where
  "getRecord stub args =
     (if length args \<noteq> 2
      then (Inl (Failed ''Incorrect arguments. Expecting a key''), stub)
      else
        let key = args ! 0 @ '':'' @ args ! 1;
            ((value, err), stub1) = GetState stub key;
            result = Split (string_of value) CHR '':''
        in case err of
             Some e \<Rightarrow>
               (Inl (Failed (''Failed to get asset: '' @ args ! 0 @ '' with error: '' @ e)),
                stub1)
           | None \<Rightarrow>
               if value = None
               then (Inl (Failed (''Asset not found: '' @ args ! 0)), stub1)
               else (case index0 result of
                       Inl p \<Rightarrow> (Inl (Panicked p), stub1)
                     | Inr r \<Rightarrow> (Inr r, stub1)))"

subsection \<open>Encrypted records\<close>

text \<open>
  Modelled from the spec: \<open>encryptAndPutState\<close>, a function of this package that
  \<open>Encrypter\<close> calls and whose file is not among the sources. The spec: "encrypt those
  bytes under AES-256; write the ciphertext to the ledger under the Composite Key";
  the failure of the underlying put is the error returned.
\<close>

definition encryptAndPutState ::
  "stub \<Rightarrow> entity \<Rightarrow> string \<Rightarrow> string \<Rightarrow> error option \<times> stub" where
  "encryptAndPutState stub ent key value =
     (let stub1 = record_call (EncryptCall value) stub;
          ciphertext = Encrypt ent value
      in PutState stub1 key ciphertext)"

text \<open>
  Modelled from the spec: the error of a read that finds nothing under the key
  (\<open>NotFoundError\<close>), which \<open>getStateAndDecrypt\<close> returns.
\<close>

definition NotFoundError :: error where
  "NotFoundError = ''NotFoundError''"

text \<open>
  Modelled from the spec: \<open>getStateAndDecrypt\<close>, a function of this package that
  \<open>Decrypter\<close> calls and whose file is not among the sources. The spec: "fetch
  ciphertext bytes for the Composite Key from the ledger (NotFoundError if absent);
  decrypt"; a fault of the underlying get or of the decryption is the error returned.
  The ciphertext is absent when \<open>GetState\<close> returns \<open>nil\<close>, as in \<open>getRecord\<close>.
\<close>

definition getStateAndDecrypt ::
  "stub \<Rightarrow> entity \<Rightarrow> string \<Rightarrow> (error + string) \<times> stub" where
  "getStateAndDecrypt stub ent key =
     (let ((ciphertext, err), stub1) = GetState stub key
      in case err of
           Some e \<Rightarrow> (Inl e, stub1)
         | None \<Rightarrow>
             (case ciphertext of
                None \<Rightarrow> (Inl NotFoundError, stub1)
              | Some c \<Rightarrow> (Decrypt ent c, record_call (DecryptCall c) stub1)))"

definition Encrypter ::
  "SimpleAsset \<Rightarrow> stub \<Rightarrow> string list \<Rightarrow> string option \<Rightarrow> string option
     \<Rightarrow> (failure + string) \<times> stub" where
  "Encrypter t stub args encKey iv =
     (let stub1 = record_call (NewEntityCall encKey iv) stub in
      case NewAES256EncrypterEntity ''ID'' (bccspInst t) encKey iv of
        Inl e \<Rightarrow>
          (Inl (Failed (''entities.NewAES256EncrypterEntity failed, err '' @ e)), stub1)
      | Inr ent \<Rightarrow>
          if length args \<noteq> 4
          then (Inl (Failed ''Expected 4 parameters to function Encrypter''), stub1)
          else
            let key = args ! 0 @ '':'' @ args ! 1;
                value = args ! 2 @ '':'' @ args ! 3;
                cleartextValue = value;
                (err, stub2) = encryptAndPutState stub1 ent key cleartextValue
            in (case err of
                  Some e \<Rightarrow> (Inl (Failed (''encryptAndPutState failed, err '' @ e)), stub2)
                | None \<Rightarrow> (Inr value, stub2)))"

definition Decrypter ::
  "SimpleAsset \<Rightarrow> stub \<Rightarrow> string list \<Rightarrow> string option \<Rightarrow> string option
     \<Rightarrow> (failure + string) \<times> stub" where
  "Decrypter t stub args decKey iv =
     (let stub1 = record_call (NewEntityCall decKey iv) stub in
      case NewAES256EncrypterEntity ''ID'' (bccspInst t) decKey iv of
        Inl e \<Rightarrow>
          (Inl (Failed (''entities.NewAES256EncrypterEntity failed, err '' @ e)), stub1)
      | Inr ent \<Rightarrow>
          if length args \<noteq> 2
          then (Inl (Failed ''Expected 2 parameters to function Decrypter''), stub1)
          else
            let key = args ! 0 @ '':'' @ args ! 1;
                (r, stub2) = getStateAndDecrypt stub1 ent key
            in (case r of
                  Inl e \<Rightarrow> (Inl (Failed (''getStateAndDecrypt failed, err '' @ e)), stub2)
                | Inr cleartextValue \<Rightarrow>
                    (case index0 (Split cleartextValue CHR '':'') of
                       Inl p \<Rightarrow> (Inl (Panicked p), stub2)
                     | Inr r0 \<Rightarrow> (Inr r0, stub2))))"

subsection \<open>The dispatcher\<close>

text \<open>
  The end of \<open>Invoke\<close>: an error of the operation becomes \<open>shim.Error\<close> of its
  message, a result \<open>shim.Success\<close> of its bytes; a panic of the operation is a panic
  of \<open>Invoke\<close>.
\<close>

definition respond :: "(failure + string) \<times> stub \<Rightarrow> (panic + response) \<times> stub" where
  "respond rs =
     (case rs of
        (Inl (Failed e), stub1) \<Rightarrow> (Inr (Error e), stub1)
      | (Inl (Panicked p), stub1) \<Rightarrow> (Inl p, stub1)
      | (Inr result, stub1) \<Rightarrow> (Inr (Success result), stub1))"

definition Invoke :: "SimpleAsset \<Rightarrow> stub \<Rightarrow> (panic + response) \<times> stub" where
  "Invoke t stub =
     (let (fn, args) = GetFunctionAndParameters stub in
      case GetTransient stub of
        Inl err \<Rightarrow> (Inr (Error (''Could not retrieve transient, err '' @ err)), stub)
      | Inr tMap \<Rightarrow>
          if fn = ''addRecord'' then respond (addRecord stub args)
          else if fn = ''getRecord'' then respond (getRecord stub args)
          else if fn = ''encRecord'' then
            (if tMap ENCKEY = None
             then (Inr (Error (''Expected transient encryption key '' @ ENCKEY)), stub)
             else respond (Encrypter t stub args (tMap ENCKEY) (tMap IV)))
          else if fn = ''decRecord'' then
            (if tMap DECKEY = None
             then (Inr (Error (''Expected transient decryption key '' @ DECKEY)), stub)
             else respond (Decrypter t stub args (tMap DECKEY) (tMap IV)))
          else (Inr (Error (''Unsupported function '' @ fn)), stub))"

section \<open>Sample collaborators\<close>

text \<open>
  A cipher, a crypto provider and stubs on which the definitions can be run. The cipher
  reverses the bytes, so that decryption inverts encryption; the provider accepts the
  keys of 32 bytes; the ledger of the sample stub is empty and reports no fault, that
  of the faulty stub refuses every put.
\<close>

definition demo_entity :: entity where
  "demo_entity = \<lparr>Encrypt = rev, Decrypt = (\<lambda>c. Inr (rev c))\<rparr>"

definition demo_bccsp :: BCCSP where
  "demo_bccsp ID key iv =
     (case key of
        None \<Rightarrow> Inl ''nil key''
      | Some k \<Rightarrow> if length k = 32 then Inr demo_entity else Inl ''invalid key length'')"

definition demo_asset :: SimpleAsset where
  "demo_asset = \<lparr>bccspInst = demo_bccsp\<rparr>"

definition demo_stub :: "string \<Rightarrow> string list \<Rightarrow> error + (string \<rightharpoonup> string) \<Rightarrow> stub" where
  "demo_stub f a tr =
     \<lparr>fn = f, params = a, transient = tr, ledger = Map.empty,
      put_fault = (\<lambda>key value. None), get_fault = (\<lambda>key. None), calls = []\<rparr>"

definition faulty_stub :: stub where
  "faulty_stub = (demo_stub [] [] (Inr Map.empty))\<lparr>put_fault := (\<lambda>key value. Some ''write fault'')\<rparr>"

definition demo_key :: string where
  "demo_key = ''0123456789abcdef0123456789abcdef''"

section \<open>Properties of \<open>strings.Split\<close> and of the operations\<close>

lemma IndexByte_None_iff: "IndexByte s c = None \<longleftrightarrow> c \<notin> set s"
  by (induction s) auto

lemma IndexByte_take: "IndexByte s c = Some m \<Longrightarrow> take m s = takeWhile (\<lambda>x. x \<noteq> c) s"
  by (induction s arbitrary: m) (auto split: if_splits)

lemma Split_not_Nil: "Split s c \<noteq> []"
  by (subst Split.simps) (simp split: option.split)

lemma takeWhile_no_sep: "c \<notin> set s \<Longrightarrow> takeWhile (\<lambda>x. x \<noteq> c) s = s"
  by (induction s) auto

lemma index0_Split: "index0 (Split s c) = Inr (takeWhile (\<lambda>x. x \<noteq> c) s)"
proof (cases "IndexByte s c")
  case None
  then have "c \<notin> set s" by (simp add: IndexByte_None_iff)
  moreover from None have "Split s c = [s]" by (subst Split.simps) simp
  ultimately show ?thesis by (simp add: index0_def takeWhile_no_sep)
next
  case (Some m)
  then have "Split s c = take m s # Split (drop (m + 1) s) c" by (subst Split.simps) simp
  with Some show ?thesis by (simp add: index0_def IndexByte_take)
qed

lemma takeWhile_serialized:
  "takeWhile (\<lambda>x. x \<noteq> c) (f1 @ c # f2) = takeWhile (\<lambda>x. x \<noteq> c) f1"
  by (induction f1) auto

lemma addRecord_ok:
  "put_fault stub (ns @ '':'' @ ident) (f1 @ '':'' @ f2) = None \<Longrightarrow>
   addRecord stub [ns, ident, f1, f2] =
     (Inr (f1 @ '':'' @ f2),
      (record_call (PutStateCall (ns @ '':'' @ ident) (f1 @ '':'' @ f2)) stub)
        \<lparr>ledger := (ledger stub)((ns @ '':'' @ ident) \<mapsto> (f1 @ '':'' @ f2))\<rparr>)"
  by (simp add: addRecord_def PutState_def Let_def)

lemma addRecord_fault:
  "put_fault stub (ns @ '':'' @ ident) (f1 @ '':'' @ f2) = Some e \<Longrightarrow>
   addRecord stub [ns, ident, f1, f2] =
     (Inl (Failed (''Failed to set asset: '' @ ns)),
      record_call (PutStateCall (ns @ '':'' @ ident) (f1 @ '':'' @ f2)) stub)"
  by (simp add: addRecord_def PutState_def Let_def)

lemma getRecord_found:
  "get_fault stub (ns @ '':'' @ ident) = None \<Longrightarrow>
   ledger stub (ns @ '':'' @ ident) = Some v \<Longrightarrow>
   getRecord stub [ns, ident] =
     (Inr (takeWhile (\<lambda>x. x \<noteq> CHR '':'') v), record_call (GetStateCall (ns @ '':'' @ ident)) stub)"
  by (simp add: getRecord_def GetState_def string_of_def index0_Split Let_def)

lemma getRecord_absent:
  "get_fault stub (ns @ '':'' @ ident) = None \<Longrightarrow>
   ledger stub (ns @ '':'' @ ident) = None \<Longrightarrow>
   getRecord stub [ns, ident] =
     (Inl (Failed (''Asset not found: '' @ ns)), record_call (GetStateCall (ns @ '':'' @ ident)) stub)"
  by (simp add: getRecord_def GetState_def Let_def)

lemma getRecord_fault:
  "get_fault stub (ns @ '':'' @ ident) = Some e \<Longrightarrow>
   getRecord stub [ns, ident] =
     (Inl (Failed (''Failed to get asset: '' @ ns @ '' with error: '' @ e)),
      record_call (GetStateCall (ns @ '':'' @ ident)) stub)"
  by (simp add: getRecord_def GetState_def Let_def)

lemma record_call_fields [simp]:
  "ledger (record_call c stub) = ledger stub"
  "put_fault (record_call c stub) = put_fault stub"
  "get_fault (record_call c stub) = get_fault stub"
  "fn (record_call c stub) = fn stub"
  "params (record_call c stub) = params stub"
  "transient (record_call c stub) = transient stub"
  "calls (record_call c stub) = calls stub @ [c]"
  by (simp_all add: record_call_def)

lemma addRecord_Inr_no_fault:
  "addRecord stub [ns, ident, f1, f2] = (Inr r, stub1) \<Longrightarrow>
   put_fault stub (ns @ '':'' @ ident) (f1 @ '':'' @ f2) = None"
  by (cases "put_fault stub (ns @ '':'' @ ident) (f1 @ '':'' @ f2)")
     (simp_all add: addRecord_fault)

lemma getRecord_no_panic: "fst (getRecord stub args) \<noteq> Inl (Panicked p)"
  by (simp add: getRecord_def GetState_def Let_def index0_Split split: option.split)

lemma takeWhile_has_sep: "c \<in> set s \<Longrightarrow> takeWhile (\<lambda>x. x \<noteq> c) s \<noteq> s"
  by (induction s) auto

lemma Encrypter_ok:
  assumes "bccspInst t ''ID'' encKey iv = Inr ent"
    and "put_fault stub (ns @ '':'' @ ident) (Encrypt ent (f1 @ '':'' @ f2)) = None"
  shows "Encrypter t stub [ns, ident, f1, f2] encKey iv =
     (Inr (f1 @ '':'' @ f2),
      (record_call (PutStateCall (ns @ '':'' @ ident) (Encrypt ent (f1 @ '':'' @ f2)))
         (record_call (EncryptCall (f1 @ '':'' @ f2))
            (record_call (NewEntityCall encKey iv) stub)))
        \<lparr>ledger := (ledger stub)((ns @ '':'' @ ident) \<mapsto> Encrypt ent (f1 @ '':'' @ f2))\<rparr>)"
  using assms
  by (simp add: Encrypter_def NewAES256EncrypterEntity_def encryptAndPutState_def
      PutState_def Let_def)

lemma Decrypter_found:
  assumes "bccspInst t ''ID'' decKey iv = Inr ent"
    and "get_fault stub (ns @ '':'' @ ident) = None"
    and "ledger stub (ns @ '':'' @ ident) = Some c"
    and "Decrypt ent c = Inr v"
  shows "Decrypter t stub [ns, ident] decKey iv =
     (Inr (takeWhile (\<lambda>x. x \<noteq> CHR '':'') v),
      record_call (DecryptCall c)
        (record_call (GetStateCall (ns @ '':'' @ ident))
           (record_call (NewEntityCall decKey iv) stub)))"
  using assms
  by (simp add: Decrypter_def NewAES256EncrypterEntity_def getStateAndDecrypt_def
      GetState_def Let_def index0_Split)

lemma Decrypter_absent:
  assumes "bccspInst t ''ID'' decKey iv = Inr ent"
    and "get_fault stub (ns @ '':'' @ ident) = None"
    and "ledger stub (ns @ '':'' @ ident) = None"
  shows "Decrypter t stub [ns, ident] decKey iv =
     (Inl (Failed (''getStateAndDecrypt failed, err '' @ NotFoundError)),
      record_call (GetStateCall (ns @ '':'' @ ident))
        (record_call (NewEntityCall decKey iv) stub))"
  using assms
  by (simp add: Decrypter_def NewAES256EncrypterEntity_def getStateAndDecrypt_def
      GetState_def Let_def)

lemma Encrypter_arity:
  assumes "bccspInst t ''ID'' encKey iv = Inr ent" and "length args \<noteq> 4"
  shows "Encrypter t stub args encKey iv =
     (Inl (Failed ''Expected 4 parameters to function Encrypter''),
      record_call (NewEntityCall encKey iv) stub)"
  using assms by (simp add: Encrypter_def NewAES256EncrypterEntity_def)

lemma Encrypter_init_fault:
  assumes "bccspInst t ''ID'' encKey iv = Inl e"
  shows "Encrypter t stub args encKey iv =
     (Inl (Failed (''entities.NewAES256EncrypterEntity failed, err '' @ e)),
      record_call (NewEntityCall encKey iv) stub)"
  using assms by (simp add: Encrypter_def NewAES256EncrypterEntity_def)

lemma Encrypter_records_call: "calls (snd (Encrypter t stub args encKey iv)) \<noteq> calls stub"
  by (simp add: Encrypter_def NewAES256EncrypterEntity_def encryptAndPutState_def
      PutState_def Let_def split: sum.split option.split prod.split)

lemma Decrypter_records_call: "calls (snd (Decrypter t stub args decKey iv)) \<noteq> calls stub"
  by (simp add: Decrypter_def NewAES256EncrypterEntity_def getStateAndDecrypt_def
      GetState_def Let_def split: sum.split option.split prod.split)

lemma respond_calls: "calls (snd (respond rs)) = calls (snd rs)"
  by (simp add: respond_def split: prod.split sum.split failure.split)

lemma Invoke_addRecord:
  "fn stub = ''addRecord'' \<Longrightarrow> transient stub = Inr tMap \<Longrightarrow>
   Invoke t stub = respond (addRecord stub (params stub))"
  by (simp add: Invoke_def GetFunctionAndParameters_def GetTransient_def)

lemma Invoke_getRecord:
  "fn stub = ''getRecord'' \<Longrightarrow> transient stub = Inr tMap \<Longrightarrow>
   Invoke t stub = respond (getRecord stub (params stub))"
  by (simp add: Invoke_def GetFunctionAndParameters_def GetTransient_def)

lemma Invoke_encRecord:
  "fn stub = ''encRecord'' \<Longrightarrow> transient stub = Inr tMap \<Longrightarrow> tMap ENCKEY = Some k \<Longrightarrow>
   Invoke t stub = respond (Encrypter t stub (params stub) (Some k) (tMap IV))"
  by (simp add: Invoke_def GetFunctionAndParameters_def GetTransient_def)

lemma Invoke_decRecord:
  "fn stub = ''decRecord'' \<Longrightarrow> transient stub = Inr tMap \<Longrightarrow> tMap DECKEY = Some k \<Longrightarrow>
   Invoke t stub = respond (Decrypter t stub (params stub) (Some k) (tMap IV))"
  by (simp add: Invoke_def GetFunctionAndParameters_def GetTransient_def)

section \<open>Properties of the chaincode\<close>

text \<open>
  C1. A record added with \<open>addRecord\<close> is read back by \<open>getRecord\<close>: when the first
  field contains no colon and the ledger reports no fault on the put and the get of the
  key, \<open>addRecord(namespace, id, field1, field2)\<close> succeeds with
  \<open>field1:field2\<close>, and \<open>getRecord(namespace, id)\<close> on the resulting ledger succeeds
  with \<open>field1\<close>.
\<close>

theorem addRecord_getRecord_roundtrip:
  assumes "CHR '':'' \<notin> set field1"
    and "put_fault stub (namespace @ '':'' @ ident) (field1 @ '':'' @ field2) = None"
    and "get_fault stub (namespace @ '':'' @ ident) = None"
  shows "fst (addRecord stub [namespace, ident, field1, field2]) = Inr (field1 @ '':'' @ field2)
       \<and> fst (getRecord (snd (addRecord stub [namespace, ident, field1, field2])) [namespace, ident])
           = Inr field1"
proof -
  let ?key = "namespace @ '':'' @ ident"
  let ?stub1 = "snd (addRecord stub [namespace, ident, field1, field2])"
  have add: "fst (addRecord stub [namespace, ident, field1, field2]) = Inr (field1 @ '':'' @ field2)"
    using assms(2) by (simp add: addRecord_ok)
  have stored: "ledger ?stub1 ?key = Some (field1 @ '':'' @ field2)"
    using assms(2) by (simp add: addRecord_ok)
  have nofault: "get_fault ?stub1 ?key = None"
    using assms(2,3) by (simp add: addRecord_ok)
  have "fst (getRecord ?stub1 [namespace, ident])
          = Inr (takeWhile (\<lambda>x. x \<noteq> CHR '':'') (field1 @ '':'' @ field2))"
    using nofault stored by (simp add: getRecord_found)
  also have "takeWhile (\<lambda>x. x \<noteq> CHR '':'') (field1 @ '':'' @ field2) = field1"
    using assms(1) by (simp add: takeWhile_serialized takeWhile_no_sep)
  finally show ?thesis using add by simp
qed

theorem addRecord_getRecord_roundtrip_witness:
  "fst (addRecord (demo_stub [] [] (Inr Map.empty)) [''acct'', ''7'', ''alice'', ''100'']) = Inr ''alice:100''
   \<and> fst (getRecord (snd (addRecord (demo_stub [] [] (Inr Map.empty)) [''acct'', ''7'', ''alice'', ''100'']))
        [''acct'', ''7'']) = Inr ''alice''"
proof -
  have h1: "CHR '':'' \<notin> set ''alice''" by simp
  have h2: "put_fault (demo_stub [] [] (Inr Map.empty)) (''acct'' @ '':'' @ ''7'') (''alice'' @ '':'' @ ''100'') = None"
    by (simp add: demo_stub_def)
  have h3: "get_fault (demo_stub [] [] (Inr Map.empty)) (''acct'' @ '':'' @ ''7'') = None"
    by (simp add: demo_stub_def)
  show ?thesis
    using addRecord_getRecord_roundtrip [OF h1 h2 h3] by simp
qed

text \<open>
  C2. An encrypted record is read back: when the first field contains no colon, the
  crypto provider constructs an entity from the key and the IV (the key is a valid
  AES-256 key), this entity's \<open>Decrypt\<close> inverts its \<open>Encrypt\<close> on the serialized value,
  and the ledger reports no fault on the put and the get of the key, then
  \<open>Encrypter\<close> (operation \<open>encRecord\<close>) on \<open>(namespace, id, field1, field2)\<close> succeeds
  with \<open>field1:field2\<close>, and \<open>Decrypter\<close> (operation \<open>decRecord\<close>) on
  \<open>(namespace, id)\<close> with the same key and IV, on the resulting ledger, succeeds with
  \<open>field1\<close>.
\<close>

theorem Encrypter_Decrypter_roundtrip:
  assumes "CHR '':'' \<notin> set field1"
    and "bccspInst t ''ID'' key iv = Inr ent"
    and "Decrypt ent (Encrypt ent (field1 @ '':'' @ field2)) = Inr (field1 @ '':'' @ field2)"
    and "put_fault stub (namespace @ '':'' @ ident) (Encrypt ent (field1 @ '':'' @ field2)) = None"
    and "get_fault stub (namespace @ '':'' @ ident) = None"
  shows "fst (Encrypter t stub [namespace, ident, field1, field2] key iv) = Inr (field1 @ '':'' @ field2)
       \<and> fst (Decrypter t (snd (Encrypter t stub [namespace, ident, field1, field2] key iv))
               [namespace, ident] key iv) = Inr field1"
proof -
  let ?key = "namespace @ '':'' @ ident"
  let ?serialized = "field1 @ '':'' @ field2"
  let ?stub1 = "snd (Encrypter t stub [namespace, ident, field1, field2] key iv)"
  have enc: "fst (Encrypter t stub [namespace, ident, field1, field2] key iv) = Inr ?serialized"
    using assms(2,4) by (simp add: Encrypter_ok)
  have stored: "ledger ?stub1 ?key = Some (Encrypt ent ?serialized)"
    using assms(2,4) by (simp add: Encrypter_ok)
  have nofault: "get_fault ?stub1 ?key = None"
    using assms(2,4,5) by (simp add: Encrypter_ok)
  have "fst (Decrypter t ?stub1 [namespace, ident] key iv)
          = Inr (takeWhile (\<lambda>x. x \<noteq> CHR '':'') ?serialized)"
    using Decrypter_found [OF assms(2) nofault stored assms(3)] by simp
  also have "takeWhile (\<lambda>x. x \<noteq> CHR '':'') ?serialized = field1"
    using assms(1) by (simp add: takeWhile_serialized takeWhile_no_sep)
  finally show ?thesis using enc by simp
qed

theorem Encrypter_Decrypter_roundtrip_witness:
  "fst (Encrypter demo_asset (demo_stub [] [] (Inr Map.empty)) [''acct'', ''8'', ''bob'', ''50'']
          (Some demo_key) (Some ''v'')) = Inr ''bob:50''
   \<and> fst (Decrypter demo_asset
            (snd (Encrypter demo_asset (demo_stub [] [] (Inr Map.empty)) [''acct'', ''8'', ''bob'', ''50'']
                    (Some demo_key) (Some ''v'')))
            [''acct'', ''8''] (Some demo_key) (Some ''v'')) = Inr ''bob''"
proof -
  let ?s0 = "demo_stub [] [] (Inr Map.empty)"
  have h1: "CHR '':'' \<notin> set ''bob''" by simp
  have h2: "bccspInst demo_asset ''ID'' (Some demo_key) (Some ''v'') = Inr demo_entity"
    by (simp add: demo_asset_def demo_bccsp_def demo_key_def)
  have h3: "Decrypt demo_entity (Encrypt demo_entity (''bob'' @ '':'' @ ''50'')) = Inr (''bob'' @ '':'' @ ''50'')"
    by (simp add: demo_entity_def)
  have h4: "put_fault ?s0 (''acct'' @ '':'' @ ''8'') (Encrypt demo_entity (''bob'' @ '':'' @ ''50'')) = None"
    by (simp add: demo_stub_def)
  have h5: "get_fault ?s0 (''acct'' @ '':'' @ ''8'') = None" by (simp add: demo_stub_def)
  show ?thesis
    using Encrypter_Decrypter_roundtrip [OF h1 h2 h3 h4 h5] by simp
qed

text \<open>
  C3. When the transient map has no entry \<open>ENCKEY\<close>, \<open>Invoke\<close> of \<open>encRecord\<close> returns
  the error "Expected transient encryption key ENCKEY"; when it has no entry
  \<open>DECKEY\<close>, \<open>Invoke\<close> of \<open>decRecord\<close> returns the error "Expected transient decryption
  key DECKEY". In both cases the stub is returned as it was: the ledger is the same and
  no call of the ledger or of the cipher has been recorded, whereas \<open>Encrypter\<close> and
  \<open>Decrypter\<close> record a call whenever they are entered (\<open>Encrypter_records_call\<close>,
  \<open>Decrypter_records_call\<close>).
\<close>

theorem Invoke_missing_secret:
  assumes "transient stub = Inr tMap"
  shows "(fn stub = ''encRecord'' \<and> tMap ENCKEY = None \<longrightarrow>
            Invoke t stub = (Inr (Error ''Expected transient encryption key ENCKEY''), stub))
       \<and> (fn stub = ''decRecord'' \<and> tMap DECKEY = None \<longrightarrow>
            Invoke t stub = (Inr (Error ''Expected transient decryption key DECKEY''), stub))"
  using assms
  by (simp add: Invoke_def GetFunctionAndParameters_def GetTransient_def ENCKEY_def DECKEY_def)

theorem Invoke_missing_secret_witness:
  "Invoke demo_asset (demo_stub ''encRecord'' [''acct'', ''8'', ''bob'', ''50''] (Inr [IV \<mapsto> ''v''])) =
     (Inr (Error ''Expected transient encryption key ENCKEY''),
      demo_stub ''encRecord'' [''acct'', ''8'', ''bob'', ''50''] (Inr [IV \<mapsto> ''v'']))
   \<and> Invoke demo_asset (demo_stub ''decRecord'' [''acct'', ''8''] (Inr [ENCKEY \<mapsto> demo_key])) =
     (Inr (Error ''Expected transient decryption key DECKEY''),
      demo_stub ''decRecord'' [''acct'', ''8''] (Inr [ENCKEY \<mapsto> demo_key]))"
proof -
  let ?e = "demo_stub ''encRecord'' [''acct'', ''8'', ''bob'', ''50''] (Inr [IV \<mapsto> ''v''])"
  let ?d = "demo_stub ''decRecord'' [''acct'', ''8''] (Inr [ENCKEY \<mapsto> demo_key])"
  have e1: "transient ?e = Inr [IV \<mapsto> ''v'']" by (simp add: demo_stub_def)
  have e2: "fn ?e = ''encRecord'' \<and> [IV \<mapsto> ''v''] ENCKEY = None"
    by (simp add: demo_stub_def IV_def ENCKEY_def)
  have d1: "transient ?d = Inr [ENCKEY \<mapsto> demo_key]" by (simp add: demo_stub_def)
  have d2: "fn ?d = ''decRecord'' \<and> [ENCKEY \<mapsto> demo_key] DECKEY = None"
    by (simp add: demo_stub_def DECKEY_def ENCKEY_def)
  show ?thesis
    using e2 d2 Invoke_missing_secret [OF e1, of demo_asset] Invoke_missing_secret [OF d1, of demo_asset]
    by simp
qed

text \<open>
  C4 fails as stated: \<open>Encrypter\<close> constructs the entity before it counts its
  arguments. With three arguments and an \<open>ENCKEY\<close> entry that the provider refuses, the
  operation fails with the error of the construction, not with the error of the
  arity.
\<close>

theorem encRecord_wrong_arity_counterexample:
  "[ENCKEY \<mapsto> ''short''] ENCKEY = Some ''short''
   \<and> length [''acct'', ''8'', ''bob''] \<noteq> 4
   \<and> fst (Invoke demo_asset (demo_stub ''encRecord'' [''acct'', ''8'', ''bob''] (Inr [ENCKEY \<mapsto> ''short'']))) =
       Inr (Error ''entities.NewAES256EncrypterEntity failed, err invalid key length'')
   \<and> fst (Invoke demo_asset (demo_stub ''encRecord'' [''acct'', ''8'', ''bob''] (Inr [ENCKEY \<mapsto> ''short'']))) \<noteq>
       Inr (Error ''Expected 4 parameters to function Encrypter'')"
  by (simp add: Invoke_def GetFunctionAndParameters_def GetTransient_def ENCKEY_def IV_def
      demo_stub_def demo_asset_def demo_bccsp_def Encrypter_def NewAES256EncrypterEntity_def
      respond_def)

text \<open>
  C4, amended. When the transient map has an entry \<open>ENCKEY\<close> from which (with the
  entry \<open>IV\<close>) the provider constructs an entity, \<open>Invoke\<close> of \<open>encRecord\<close> with a number
  of arguments other than four returns the error "Expected 4 parameters to function
  Encrypter", and the ledger is as it was.
\<close>

theorem encRecord_wrong_arity:
  assumes "fn stub = ''encRecord''"
    and "transient stub = Inr tMap"
    and "tMap ENCKEY = Some k"
    and "bccspInst t ''ID'' (Some k) (tMap IV) = Inr ent"
    and "length (params stub) \<noteq> 4"
  shows "fst (Invoke t stub) = Inr (Error ''Expected 4 parameters to function Encrypter'')
       \<and> ledger (snd (Invoke t stub)) = ledger stub"
  using assms by (simp add: Invoke_encRecord Encrypter_arity respond_def)

theorem encRecord_wrong_arity_witness:
  "fst (Invoke demo_asset (demo_stub ''encRecord'' [''acct'', ''8'', ''bob''] (Inr [ENCKEY \<mapsto> demo_key]))) =
     Inr (Error ''Expected 4 parameters to function Encrypter'')
   \<and> ledger (snd (Invoke demo_asset (demo_stub ''encRecord'' [''acct'', ''8'', ''bob''] (Inr [ENCKEY \<mapsto> demo_key]))))
       = ledger (demo_stub ''encRecord'' [''acct'', ''8'', ''bob''] (Inr [ENCKEY \<mapsto> demo_key]))"
proof -
  let ?s = "demo_stub ''encRecord'' [''acct'', ''8'', ''bob''] (Inr [ENCKEY \<mapsto> demo_key])"
  have h1: "fn ?s = ''encRecord''" by (simp add: demo_stub_def)
  have h2: "transient ?s = Inr [ENCKEY \<mapsto> demo_key]" by (simp add: demo_stub_def)
  have h3: "[ENCKEY \<mapsto> demo_key] ENCKEY = Some demo_key" by simp
  have h4: "bccspInst demo_asset ''ID'' (Some demo_key) ([ENCKEY \<mapsto> demo_key] IV) = Inr demo_entity"
    by (simp add: demo_asset_def demo_bccsp_def demo_key_def)
  have h5: "length (params ?s) \<noteq> 4" by (simp add: demo_stub_def)
  show ?thesis
    using encRecord_wrong_arity [OF h1 h2 h3 h4 h5] by simp
qed

text \<open>
  C5 fails as stated: the message of a failed put is built from the first argument.
  For the arguments \<open>(acct, 7, alice, 100)\<close> it is "Failed to set asset: acct", in
  which the second argument \<open>7\<close> does not occur, and it is the same message for the
  second argument \<open>8\<close>.
\<close>

theorem addRecord_put_fault_counterexample:
  "fst (addRecord faulty_stub [''acct'', ''7'', ''alice'', ''100'']) =
     Inl (Failed ''Failed to set asset: acct'')
   \<and> CHR ''7'' \<notin> set ''Failed to set asset: acct''
   \<and> fst (addRecord faulty_stub [''acct'', ''8'', ''alice'', ''100'']) =
     fst (addRecord faulty_stub [''acct'', ''7'', ''alice'', ''100''])"
  by (simp add: addRecord_def PutState_def faulty_stub_def demo_stub_def Let_def)

text \<open>
  C5, amended. When \<open>addRecord\<close> has four arguments and the put on the ledger fails,
  \<open>addRecord\<close> fails with the message "Failed to set asset: " followed by its first
  argument, and the ledger is as it was.
\<close>

theorem addRecord_put_fault:
  assumes "length args = 4"
    and "put_fault stub (args ! 0 @ '':'' @ args ! 1) (args ! 2 @ '':'' @ args ! 3) = Some e"
  shows "fst (addRecord stub args) = Inl (Failed (''Failed to set asset: '' @ args ! 0))
       \<and> ledger (snd (addRecord stub args)) = ledger stub"
  using assms by (simp add: addRecord_def PutState_def Let_def)

theorem addRecord_put_fault_witness:
  "length [''acct'', ''7'', ''alice'', ''100''] = 4
   \<and> put_fault faulty_stub ''acct:7'' ''alice:100'' = Some ''write fault''
   \<and> fst (addRecord faulty_stub [''acct'', ''7'', ''alice'', ''100'']) =
       Inl (Failed ''Failed to set asset: acct'')
   \<and> ledger (snd (addRecord faulty_stub [''acct'', ''7'', ''alice'', ''100''])) = ledger faulty_stub"
proof -
  have h1: "length [''acct'', ''7'', ''alice'', ''100''] = 4" by simp
  have h2: "put_fault faulty_stub
              ([''acct'', ''7'', ''alice'', ''100''] ! 0 @ '':'' @ [''acct'', ''7'', ''alice'', ''100''] ! 1)
              ([''acct'', ''7'', ''alice'', ''100''] ! 2 @ '':'' @ [''acct'', ''7'', ''alice'', ''100''] ! 3)
            = Some ''write fault''"
    by (simp add: faulty_stub_def demo_stub_def)
  show ?thesis
    using h1 h2 addRecord_put_fault [OF h1 h2] by simp
qed

text \<open>
  C6. When nothing is stored under the key \<open>namespace:id\<close> and the ledger reports no
  fault on the get of this key, \<open>getRecord(namespace, id)\<close> fails with "Asset not
  found: " followed by the namespace, and \<open>Decrypter\<close> (operation \<open>decRecord\<close>), once
  the provider has constructed its entity, fails with the not-found error of
  \<open>getStateAndDecrypt\<close>.
\<close>

theorem read_of_absent_key:
  assumes "ledger stub (namespace @ '':'' @ ident) = None"
    and "get_fault stub (namespace @ '':'' @ ident) = None"
    and "bccspInst t ''ID'' decKey iv = Inr ent"
  shows "fst (getRecord stub [namespace, ident]) = Inl (Failed (''Asset not found: '' @ namespace))
       \<and> fst (Decrypter t stub [namespace, ident] decKey iv) =
           Inl (Failed (''getStateAndDecrypt failed, err '' @ NotFoundError))"
  using assms by (simp add: getRecord_absent Decrypter_absent)

theorem read_of_absent_key_witness:
  "fst (getRecord (demo_stub [] [] (Inr Map.empty)) [''acct'', ''9'']) = Inl (Failed ''Asset not found: acct'')
   \<and> fst (Decrypter demo_asset (demo_stub [] [] (Inr Map.empty)) [''acct'', ''9''] (Some demo_key) None) =
       Inl (Failed ''getStateAndDecrypt failed, err NotFoundError'')"
proof -
  let ?s0 = "demo_stub [] [] (Inr Map.empty)"
  have h1: "ledger ?s0 (''acct'' @ '':'' @ ''9'') = None" by (simp add: demo_stub_def)
  have h2: "get_fault ?s0 (''acct'' @ '':'' @ ''9'') = None" by (simp add: demo_stub_def)
  have h3: "bccspInst demo_asset ''ID'' (Some demo_key) None = Inr demo_entity"
    by (simp add: demo_asset_def demo_bccsp_def demo_key_def)
  show ?thesis
    using read_of_absent_key [OF h1 h2 h3] by (simp add: NotFoundError_def)
qed

text \<open>
  C7 fails as stated when the first field of the second value contains a colon: after
  \<open>addRecord(acct, 7, alice, 100)\<close> and \<open>addRecord(acct, 7, a:b, c)\<close> the read
  \<open>getRecord(acct, 7)\<close> returns \<open>a\<close>, not the first field \<open>a:b\<close>.
\<close>

theorem addRecord_overwrite_counterexample:
  "fst (addRecord (demo_stub [] [] (Inr Map.empty)) [''acct'', ''7'', ''alice'', ''100'']) = Inr ''alice:100''
   \<and> fst (addRecord (snd (addRecord (demo_stub [] [] (Inr Map.empty)) [''acct'', ''7'', ''alice'', ''100'']))
        [''acct'', ''7'', ''a:b'', ''c'']) = Inr ''a:b:c''
   \<and> fst (getRecord
        (snd (addRecord (snd (addRecord (demo_stub [] [] (Inr Map.empty)) [''acct'', ''7'', ''alice'', ''100'']))
           [''acct'', ''7'', ''a:b'', ''c'']))
        [''acct'', ''7'']) = Inr ''a''
   \<and> fst (getRecord
        (snd (addRecord (snd (addRecord (demo_stub [] [] (Inr Map.empty)) [''acct'', ''7'', ''alice'', ''100'']))
           [''acct'', ''7'', ''a:b'', ''c'']))
        [''acct'', ''7'']) \<noteq> Inr ''a:b''"
  by (simp add: addRecord_def getRecord_def PutState_def GetState_def demo_stub_def Let_def
      string_of_def index0_Split)

text \<open>
  C7, amended. After two successful calls of \<open>addRecord\<close> on the same
  \<open>(namespace, id)\<close>, with the values \<open>(f1, f2)\<close> and then \<open>(g1, g2)\<close>, the ledger holds
  \<open>g1:g2\<close> under the key, and \<open>getRecord\<close> (the ledger reporting no fault on the get)
  returns \<open>g1\<close> up to its first colon: \<open>g1\<close> itself when it contains no colon.
\<close>

theorem addRecord_overwrite:
  assumes "addRecord stub [namespace, ident, f1, f2] = (Inr r1, stub1)"
    and "addRecord stub1 [namespace, ident, g1, g2] = (Inr r2, stub2)"
    and "get_fault stub2 (namespace @ '':'' @ ident) = None"
  shows "ledger stub2 (namespace @ '':'' @ ident) = Some (g1 @ '':'' @ g2)
       \<and> fst (getRecord stub2 [namespace, ident]) = Inr (takeWhile (\<lambda>c. c \<noteq> CHR '':'') g1)
       \<and> (CHR '':'' \<notin> set g1 \<longrightarrow> fst (getRecord stub2 [namespace, ident]) = Inr g1)"
proof -
  let ?key = "namespace @ '':'' @ ident"
  have ok2: "put_fault stub1 ?key (g1 @ '':'' @ g2) = None"
    using assms(2) by (rule addRecord_Inr_no_fault)
  have stub2: "stub2 = snd (addRecord stub1 [namespace, ident, g1, g2])"
    using assms(2) by simp
  have stored: "ledger stub2 ?key = Some (g1 @ '':'' @ g2)"
    unfolding stub2 using ok2 by (simp add: addRecord_ok)
  have got: "fst (getRecord stub2 [namespace, ident]) = Inr (takeWhile (\<lambda>c. c \<noteq> CHR '':'') g1)"
    using assms(3) stored by (simp add: getRecord_found takeWhile_serialized)
  show ?thesis using stored got by (simp add: takeWhile_no_sep)
qed

theorem addRecord_overwrite_witness:
  "addRecord (demo_stub [] [] (Inr Map.empty)) [''acct'', ''7'', ''alice'', ''100''] =
     (Inr ''alice:100'', snd (addRecord (demo_stub [] [] (Inr Map.empty)) [''acct'', ''7'', ''alice'', ''100'']))
   \<and> ledger (snd (addRecord (snd (addRecord (demo_stub [] [] (Inr Map.empty)) [''acct'', ''7'', ''alice'', ''100'']))
        [''acct'', ''7'', ''bob'', ''50''])) ''acct:7'' = Some ''bob:50''
   \<and> fst (getRecord
        (snd (addRecord (snd (addRecord (demo_stub [] [] (Inr Map.empty)) [''acct'', ''7'', ''alice'', ''100'']))
           [''acct'', ''7'', ''bob'', ''50'']))
        [''acct'', ''7'']) = Inr ''bob''"
proof -
  let ?s0 = "demo_stub [] [] (Inr Map.empty)"
  let ?s1 = "snd (addRecord ?s0 [''acct'', ''7'', ''alice'', ''100''])"
  let ?s2 = "snd (addRecord ?s1 [''acct'', ''7'', ''bob'', ''50''])"
  have h1: "addRecord ?s0 [''acct'', ''7'', ''alice'', ''100''] = (Inr ''alice:100'', ?s1)"
    by (simp add: addRecord_def PutState_def demo_stub_def Let_def)
  have h2: "addRecord ?s1 [''acct'', ''7'', ''bob'', ''50''] = (Inr ''bob:50'', ?s2)"
    by (simp add: addRecord_def PutState_def demo_stub_def Let_def)
  have h3: "get_fault ?s2 (''acct'' @ '':'' @ ''7'') = None"
    by (simp add: addRecord_def PutState_def demo_stub_def Let_def)
  show ?thesis
    using h1 addRecord_overwrite [OF h1 h2 h3] by simp
qed

text \<open>
  C8. With a number of arguments other than four, \<open>addRecord\<close> fails with "Incorrect
  arguments. Expecting a key and a value" and returns the stub as it was: no put has
  been recorded and the ledger is the same.
\<close>

theorem addRecord_wrong_arity:
  assumes "length args \<noteq> 4"
  shows "addRecord stub args =
           (Inl (Failed ''Incorrect arguments. Expecting a key and a value''), stub)
       \<and> calls (snd (addRecord stub args)) = calls stub
       \<and> ledger (snd (addRecord stub args)) = ledger stub"
  using assms by (simp add: addRecord_def)

theorem addRecord_wrong_arity_witness:
  "length [''acct'', ''7'', ''alice''] \<noteq> 4
   \<and> addRecord (demo_stub [] [] (Inr Map.empty)) [''acct'', ''7'', ''alice''] =
       (Inl (Failed ''Incorrect arguments. Expecting a key and a value''),
        demo_stub [] [] (Inr Map.empty))
   \<and> length [''acct'', ''7'', ''alice'', ''100'', ''x''] \<noteq> 4
   \<and> fst (addRecord (demo_stub [] [] (Inr Map.empty)) [''acct'', ''7'', ''alice'', ''100'', ''x'']) =
       Inl (Failed ''Incorrect arguments. Expecting a key and a value'')"
proof -
  have h3: "length [''acct'', ''7'', ''alice''] \<noteq> 4" by simp
  have h5: "length [''acct'', ''7'', ''alice'', ''100'', ''x''] \<noteq> 4" by simp
  show ?thesis
    using h3 h5
      addRecord_wrong_arity [OF h3, of "demo_stub [] [] (Inr Map.empty)"]
      addRecord_wrong_arity [OF h5, of "demo_stub [] [] (Inr Map.empty)"]
    by simp
qed

text \<open>
  C9. When the retrieval of the transient map fails, \<open>Invoke\<close> returns the error "Could
  not retrieve transient, err " followed by the message of the failure, whatever the
  function name and the parameters are, and returns the stub as it was: no call of
  the ledger has been recorded.
\<close>

theorem Invoke_transient_fault:
  assumes "transient stub = Inl err"
  shows "Invoke t stub = (Inr (Error (''Could not retrieve transient, err '' @ err)), stub)"
  using assms by (simp add: Invoke_def GetFunctionAndParameters_def GetTransient_def)

theorem Invoke_transient_fault_witness:
  "transient (demo_stub ''addRecord'' [''acct'', ''7'', ''alice'', ''100''] (Inl ''no transient'')) = Inl ''no transient''
   \<and> Invoke demo_asset (demo_stub ''addRecord'' [''acct'', ''7'', ''alice'', ''100''] (Inl ''no transient'')) =
       (Inr (Error ''Could not retrieve transient, err no transient''),
        demo_stub ''addRecord'' [''acct'', ''7'', ''alice'', ''100''] (Inl ''no transient''))
   \<and> transient (demo_stub ''getRecord'' [''acct'', ''7''] (Inl ''no transient'')) = Inl ''no transient''
   \<and> Invoke demo_asset (demo_stub ''getRecord'' [''acct'', ''7''] (Inl ''no transient'')) =
       (Inr (Error ''Could not retrieve transient, err no transient''),
        demo_stub ''getRecord'' [''acct'', ''7''] (Inl ''no transient''))"
proof -
  have h1: "transient (demo_stub ''addRecord'' [''acct'', ''7'', ''alice'', ''100''] (Inl ''no transient''))
              = Inl ''no transient''"
    by (simp add: demo_stub_def)
  have h2: "transient (demo_stub ''getRecord'' [''acct'', ''7''] (Inl ''no transient'')) = Inl ''no transient''"
    by (simp add: demo_stub_def)
  show ?thesis
    using h1 h2 Invoke_transient_fault [OF h1, of demo_asset] Invoke_transient_fault [OF h2, of demo_asset]
    by simp
qed

text \<open>
  C10. When a value is stored under the key and the get reports no fault,
  \<open>getRecord\<close> succeeds with the bytes of the value before its first colon, which is
  the whole value when it contains no colon; every successful \<open>getRecord\<close> returns
  such a prefix of the stored value. \<open>Split\<close> never returns the empty list, and
  \<open>getRecord\<close> never panics. In particular, after \<open>addRecord(namespace, id, field1,
  field2)\<close> where \<open>field1\<close> contains a colon, \<open>getRecord(namespace, id)\<close> returns the
  bytes of \<open>field1\<close> before its first colon, which differ from \<open>field1\<close>.
\<close>

theorem getRecord_returns_prefix:
  "(get_fault stub (namespace @ '':'' @ ident) = None \<and> ledger stub (namespace @ '':'' @ ident) = Some v \<longrightarrow>
      fst (getRecord stub [namespace, ident]) = Inr (takeWhile (\<lambda>c. c \<noteq> CHR '':'') v)
      \<and> (CHR '':'' \<notin> set v \<longrightarrow> fst (getRecord stub [namespace, ident]) = Inr v))
   \<and> (getRecord stub args = (Inr r, stub') \<longrightarrow>
        (\<exists>w. ledger stub (args ! 0 @ '':'' @ args ! 1) = Some w
             \<and> r = takeWhile (\<lambda>c. c \<noteq> CHR '':'') w))
   \<and> Split v CHR '':'' \<noteq> []
   \<and> fst (getRecord stub args) \<noteq> Inl (Panicked p)
   \<and> (CHR '':'' \<in> set field1
        \<and> put_fault stub (namespace @ '':'' @ ident) (field1 @ '':'' @ field2) = None
        \<and> get_fault stub (namespace @ '':'' @ ident) = None \<longrightarrow>
        fst (getRecord (snd (addRecord stub [namespace, ident, field1, field2])) [namespace, ident])
          = Inr (takeWhile (\<lambda>c. c \<noteq> CHR '':'') field1)
        \<and> takeWhile (\<lambda>c. c \<noteq> CHR '':'') field1 \<noteq> field1)"
proof -
  let ?key = "namespace @ '':'' @ ident"
  have a: "get_fault stub ?key = None \<and> ledger stub ?key = Some v \<longrightarrow>
      fst (getRecord stub [namespace, ident]) = Inr (takeWhile (\<lambda>c. c \<noteq> CHR '':'') v)
      \<and> (CHR '':'' \<notin> set v \<longrightarrow> fst (getRecord stub [namespace, ident]) = Inr v)"
    by (simp add: getRecord_found takeWhile_no_sep)
  have b: "getRecord stub args = (Inr r, stub') \<longrightarrow>
        (\<exists>w. ledger stub (args ! 0 @ '':'' @ args ! 1) = Some w
             \<and> r = takeWhile (\<lambda>c. c \<noteq> CHR '':'') w)"
    by (auto simp: getRecord_def GetState_def Let_def index0_Split string_of_def
        split: if_splits option.splits)
  have c: "Split v CHR '':'' \<noteq> []" by (rule Split_not_Nil)
  have d: "fst (getRecord stub args) \<noteq> Inl (Panicked p)" by (rule getRecord_no_panic)
  have e: "CHR '':'' \<in> set field1
        \<and> put_fault stub ?key (field1 @ '':'' @ field2) = None
        \<and> get_fault stub ?key = None \<longrightarrow>
        fst (getRecord (snd (addRecord stub [namespace, ident, field1, field2])) [namespace, ident])
          = Inr (takeWhile (\<lambda>c. c \<noteq> CHR '':'') field1)
        \<and> takeWhile (\<lambda>c. c \<noteq> CHR '':'') field1 \<noteq> field1"
    by (simp add: addRecord_ok getRecord_found takeWhile_serialized takeWhile_has_sep)
  from a b c d e show ?thesis by blast
qed

theorem getRecord_returns_prefix_witness:
  "fst (getRecord (snd (addRecord (demo_stub [] [] (Inr Map.empty)) [''acct'', ''7'', ''a:b'', ''c'']))
      [''acct'', ''7'']) = Inr ''a''
   \<and> ledger (snd (addRecord (demo_stub [] [] (Inr Map.empty)) [''acct'', ''7'', ''a:b'', ''c''])) ''acct:7''
       = Some ''a:b:c''
   \<and> takeWhile (\<lambda>c. c \<noteq> CHR '':'') ''a:b'' \<noteq> ''a:b''"
proof -
  let ?s0 = "demo_stub [] [] (Inr Map.empty)"
  let ?s1 = "snd (addRecord ?s0 [''acct'', ''7'', ''a:b'', ''c''])"
  have h1: "CHR '':'' \<in> set ''a:b''
      \<and> put_fault ?s0 (''acct'' @ '':'' @ ''7'') (''a:b'' @ '':'' @ ''c'') = None
      \<and> get_fault ?s0 (''acct'' @ '':'' @ ''7'') = None"
    by (simp add: demo_stub_def)
  have h2: "ledger ?s1 ''acct:7'' = Some ''a:b:c''"
    by (simp add: addRecord_def PutState_def demo_stub_def Let_def)
  show ?thesis
    using h1 h2
      getRecord_returns_prefix [of ?s0 "''acct''" "''7''" "''a:b:c''" "[''acct'', ''7'']"
        "''a''" ?s0 IndexOutOfRange "''a:b''" "''c''"]
    by simp
qed

end
